theory Spec2Isabelle
  imports Complex_Main
begin

section \<open>The availability checker: data model\<close>

text \<open>
  This theory embeds \<^verbatim>\<open>src/availability-checker/checker.py\<close>, the class
  \<^verbatim>\<open>ServiceChecker\<close>. Python dictionaries with a fixed set of keys are records, the
  instance attributes are a record that every method takes and returns, an exception that
  leaves a method is the left summand of its result, and everything the program obtains
  from outside (the clock, the HTTP client, the order in which the concurrent probes
  finish) is an explicit argument. The class never changes a list in place: the roster is
  only read, and \<^verbatim>\<open>check_all_services\<close> binds \<open>last_check_results\<close> to a new list. Lists
  are therefore plain values here.
\<close>

subsection \<open>Service entries and probe results\<close>

text \<open>
  A roster entry is the dictionary that the constructor's docstring describes: ``service
  dictionaries with \<^verbatim>\<open>'name'\<close> and \<^verbatim>\<open>'url'\<close> keys''. The two keys are the fields
  \<open>svc_name\<close> and \<open>svc_url\<close>.
\<close>

record service_dict =
  svc_name :: string
  svc_url :: string

text \<open>
  Python's floating-point arithmetic is not evaluated. A float is the expression that
  produces it: a double given by its value (what \<^verbatim>\<open>time.time()\<close> returned, or the
  literal \<^verbatim>\<open>1000\<close>), a difference or a product of two floats in double precision, or
  \<^verbatim>\<open>round(x, n)\<close>.
\<close>

datatype pyfloat =
    Float rat
  | Fsub pyfloat pyfloat
  | Fmul pyfloat pyfloat
  | Fround pyfloat int

text \<open>
  The dictionary built in lines 46--54 of \<^verbatim>\<open>check_service\<close>. Python's \<^verbatim>\<open>None\<close> is
  \<open>None\<close>.
\<close>

record result_dict =
  service :: string
  url :: string
  timestamp :: string
  status :: string
  status_code :: "int option"
  response_time_ms :: "pyfloat option"
  error :: "string option"

subsection \<open>The clock\<close>

text \<open>
  A naive \<^verbatim>\<open>datetime\<close> value, as \<^verbatim>\<open>datetime.utcnow()\<close> returns it, and the standard
  library's \<^verbatim>\<open>isoformat()\<close> for it: \<^verbatim>\<open>YYYY-MM-DDTHH:MM:SS\<close>, followed by
  \<^verbatim>\<open>.ffffff\<close> when the microsecond field is not zero.
\<close>

record datetime =
  year :: nat
  month :: nat
  day :: nat
  hour :: nat
  minute :: nat
  second :: nat
  microsecond :: nat

definition digit_char :: "nat \<Rightarrow> char" where
  "digit_char n = ''0123456789'' ! (n mod 10)"

text \<open>The last \<open>w\<close> decimal digits of \<open>n\<close>, padded with zeros on the left.\<close>

fun zero_padded :: "nat \<Rightarrow> nat \<Rightarrow> string" where
  "zero_padded 0 n = []"
| "zero_padded (Suc w) n = zero_padded w (n div 10) @ [digit_char n]"

definition isoformat :: "datetime \<Rightarrow> string" where
  "isoformat d =
     zero_padded 4 (year d) @ ''-'' @ zero_padded 2 (month d) @ ''-'' @ zero_padded 2 (day d)
     @ ''T'' @ zero_padded 2 (hour d) @ '':'' @ zero_padded 2 (minute d)
     @ '':'' @ zero_padded 2 (second d)
     @ (if microsecond d = 0 then [] else ''.'' @ zero_padded 6 (microsecond d))"

text \<open>
  What the two clock functions of the source return at one instant: \<^verbatim>\<open>time.time()\<close>
  (the value of the double, in seconds) and \<^verbatim>\<open>datetime.utcnow()\<close>.
\<close>

record clock =
  time :: rat
  utcnow :: datetime

subsection \<open>Exceptions and the outcome of one HTTP attempt\<close>

text \<open>
  The \<^verbatim>\<open>try\<close> statement of \<^verbatim>\<open>check_service\<close> tells exceptions apart by class, in
  this order: \<^verbatim>\<open>asyncio.TimeoutError\<close>, \<^verbatim>\<open>aiohttp.ClientError\<close>, \<^verbatim>\<open>Exception\<close>.
  The classes below are the regions that these three tests cut out of Python's exception
  hierarchy. aiohttp's \<^verbatim>\<open>ServerTimeoutError\<close> derives from both of the first two. An
  exception that does not derive from \<^verbatim>\<open>Exception\<close> (task cancellation, keyboard
  interrupt, interpreter exit) matches no handler.
\<close>

datatype exception_class =
    AsyncioTimeoutError
  | ServerTimeoutError
  | ClientError
  | OtherException
  | BaseExceptionOnly

record py_exception =
  exc_class :: exception_class
  exc_str :: string

definition isinstance_TimeoutError :: "py_exception \<Rightarrow> bool" where
  "isinstance_TimeoutError e \<longleftrightarrow> exc_class e = AsyncioTimeoutError \<or> exc_class e = ServerTimeoutError"

definition isinstance_ClientError :: "py_exception \<Rightarrow> bool" where
  "isinstance_ClientError e \<longleftrightarrow> exc_class e = ServerTimeoutError \<or> exc_class e = ClientError"

definition isinstance_Exception :: "py_exception \<Rightarrow> bool" where
  "isinstance_Exception e \<longleftrightarrow> exc_class e \<noteq> BaseExceptionOnly"

text \<open>
  What \<^verbatim>\<open>async with session.get(url, timeout=self.timeout) as response\<close> does: it
  delivers a response with an integer status, or it raises. The body of the \<^verbatim>\<open>with\<close>
  block only assigns fields of the result and writes a log line; it and the release of the
  response on leaving the block are taken not to raise.
\<close>

datatype http_outcome =
    Response int
  | Raised py_exception

text \<open>
  One attempt, as \<^verbatim>\<open>check_service\<close> sees it: the clock when the method starts (lines 44
  and 49), the outcome of the request, and the clock when that outcome is known (lines
  58, 69, 74 and 79).
\<close>

record attempt =
  at_start :: clock
  outcome :: http_outcome
  at_end :: clock

subsection \<open>The checker\<close>

record checker =
  services :: "service_dict list"
  timeout :: int
  last_check_results :: "result_dict list"

record summary =
  total_services :: int
  up :: int
  down :: int
  last_check :: "string option"

section \<open>The operations\<close>

definition init :: "service_dict list \<Rightarrow> int \<Rightarrow> checker" where
  "init svcs t = \<lparr>services = svcs, timeout = t, last_check_results = []\<rparr>"

text \<open>
  \<^verbatim>\<open>check_service\<close>. The session argument of the source is the attempt here. The log
  lines are not part of what the method returns and are left out.
\<close>

definition check_service :: "checker \<Rightarrow> attempt \<Rightarrow> service_dict \<Rightarrow> py_exception + result_dict" where
  "check_service self a svc =
     (let name = svc_name svc;
          url = svc_url svc;
          start_time = Float (time (at_start a));
          result = \<lparr>service = name, url = url,
                    timestamp = isoformat (utcnow (at_start a)) @ ''Z'',
                    status = ''down'', status_code = None, response_time_ms = None,
                    error = None\<rparr>
      in case outcome a of
           Response response_status \<Rightarrow>
             (let response_time = Fmul (Fsub (Float (time (at_end a))) start_time) (Float 1000);
                  result = result\<lparr>status_code := Some response_status\<rparr>;
                  result = result\<lparr>response_time_ms := Some (Fround response_time 2)\<rparr>
              in if response_status = 200 then Inr (result\<lparr>status := ''up''\<rparr>) else Inr result)
         | Raised e \<Rightarrow>
             (let response_time = Fmul (Fsub (Float (time (at_end a))) start_time) (Float 1000)
              in if isinstance_TimeoutError e then
                   Inr (result\<lparr>response_time_ms := Some (Fround response_time 2),
                               error := Some ''Request timeout''\<rparr>)
                 else if isinstance_ClientError e then
                   Inr (result\<lparr>response_time_ms := Some (Fround response_time 2),
                               error := Some (exc_str e)\<rparr>)
                 else if isinstance_Exception e then
                   Inr (result\<lparr>response_time_ms := Some (Fround response_time 2),
                               error := Some (exc_str e)\<rparr>)
                 else Inl e))"

subsection \<open>Waiting for all probes\<close>

text \<open>
  \<^verbatim>\<open>asyncio.gather(*tasks)\<close> of the standard library, with its default
  \<^verbatim>\<open>return_exceptions=False\<close>. The tasks finish in some order, given here as the list
  of their indices in order of completion. Each value returned is stored at the index of
  its task; the first exception raised by a task leaves \<^verbatim>\<open>gather\<close> at once. When every
  task has returned, the stored values are the result, in the order of the tasks. A
  completion order that leaves a task unfinished means that \<^verbatim>\<open>gather\<close> does not return:
  the value \<open>None\<close>.
\<close>

fun gather_run :: "nat list \<Rightarrow> (py_exception + 'a) list \<Rightarrow> 'a option list \<Rightarrow> (py_exception + 'a list) option" where
  "gather_run [] tasks slots =
     (if list_all (\<lambda>v. v \<noteq> None) slots then Some (Inr (map the slots)) else None)"
| "gather_run (i # order) tasks slots =
     (if i < length tasks then
        (case tasks ! i of
           Inl e \<Rightarrow> Some (Inl e)
         | Inr v \<Rightarrow> gather_run order tasks (slots[i := Some v]))
      else gather_run order tasks slots)"

definition gather :: "nat list \<Rightarrow> (py_exception + 'a) list \<Rightarrow> (py_exception + 'a list) option" where
  "gather order tasks = gather_run order tasks (replicate (length tasks) None)"

subsection \<open>The methods of the checker\<close>

text \<open>
  \<^verbatim>\<open>check_all_services\<close>. The argument \<open>world\<close> gives, for the index of each roster
  entry, the attempt that its probe makes; \<open>order\<close> is the order in which the probes
  finish. The method returns \<open>None\<close> when \<^verbatim>\<open>gather\<close> does not return, \<open>Some (Inl e)\<close> when
  it raises \<open>e\<close>, and otherwise the list that it has stored in \<open>last_check_results\<close>.
  The assignment of line 100 is reached only in the last case. Opening and closing the
  client session are taken to succeed.
\<close>

definition check_all_services ::
    "(nat \<Rightarrow> attempt) \<Rightarrow> nat list \<Rightarrow> checker \<Rightarrow> (py_exception + result_dict list) option \<times> checker" where
  "check_all_services world order self =
     (let tasks = map (\<lambda>(i, service). check_service self (world i) service)
                      (enumerate 0 (services self))
      in case gather order tasks of
           None \<Rightarrow> (None, self)
         | Some (Inl e) \<Rightarrow> (Some (Inl e), self)
         | Some (Inr results) \<Rightarrow>
             (let self = self\<lparr>last_check_results := results\<rparr>
              in (Some (Inr (last_check_results self)), self)))"

definition get_last_results :: "checker \<Rightarrow> result_dict list \<times> checker" where
  "get_last_results self = (last_check_results self, self)"

definition get_summary :: "checker \<Rightarrow> summary \<times> checker" where
  "get_summary self =
     (if last_check_results self = [] then
        (\<lparr>total_services = int (length (services self)), up = 0,
          down = int (length (services self)), last_check = None\<rparr>, self)
      else
        (let up_count = (\<Sum>r\<leftarrow>filter (\<lambda>r. status r = ''up'') (last_check_results self). (1::int));
             down_count = int (length (last_check_results self)) - up_count
         in (\<lparr>total_services = int (length (services self)), up = up_count, down = down_count,
              last_check = (if last_check_results self \<noteq> []
                            then Some (timestamp (last_check_results self ! 0)) else None)\<rparr>,
             self)))"

subsection \<open>Reachable states\<close>

text \<open>
  The states of a checker that the constructor and the three public methods produce, for
  every behaviour of the outside world.
\<close>

inductive reachable :: "checker \<Rightarrow> bool" where
  reachable_init: "reachable (init svcs t)"
| reachable_check_all: "reachable s \<Longrightarrow> reachable (snd (check_all_services world order s))"
| reachable_get_last_results: "reachable s \<Longrightarrow> reachable (snd (get_last_results s))"
| reachable_get_summary: "reachable s \<Longrightarrow> reachable (snd (get_summary s))"

text \<open>The attempts in which no exception outside \<^verbatim>\<open>Exception\<close> is raised.\<close>

definition raises_only_Exception :: "attempt \<Rightarrow> bool" where
  "raises_only_Exception a \<longleftrightarrow>
     (case outcome a of Response c \<Rightarrow> True | Raised e \<Rightarrow> isinstance_Exception e)"

subsection \<open>Sequences of read calls\<close>

text \<open>
  The two read methods, called one after the other any number of times, with no
  \<^verbatim>\<open>check_all_services\<close> in between.
\<close>

datatype read_call = GetLastResults | GetSummary

datatype read_value = Results "result_dict list" | Summary summary

fun read :: "read_call \<Rightarrow> checker \<Rightarrow> read_value \<times> checker" where
  "read GetLastResults self = (Results (fst (get_last_results self)), snd (get_last_results self))"
| "read GetSummary self = (Summary (fst (get_summary self)), snd (get_summary self))"

fun run_reads :: "read_call list \<Rightarrow> checker \<Rightarrow> checker" where
  "run_reads [] self = self"
| "run_reads (c # cs) self = run_reads cs (snd (read c self))"

section \<open>A concrete run\<close>

text \<open>
  A roster of three services and one run over it. Service B answers 500 after 50 ms,
  service A answers 200 after 80 ms, and service C does not answer within the timeout of
  five seconds; the probes therefore finish in the order B, A, C.
\<close>

definition ex_A :: service_dict where
  "ex_A = \<lparr>svc_name = ''A'', svc_url = ''urlA''\<rparr>"

definition ex_B :: service_dict where
  "ex_B = \<lparr>svc_name = ''B'', svc_url = ''urlB''\<rparr>"

definition ex_C :: service_dict where
  "ex_C = \<lparr>svc_name = ''C'', svc_url = ''urlC''\<rparr>"

definition ex_checker :: checker where
  "ex_checker = init [ex_A, ex_B, ex_C] 5"

definition ex_utc :: "nat \<Rightarrow> nat \<Rightarrow> datetime" where
  "ex_utc s us = \<lparr>year = 2026, month = 1, day = 20, hour = 10, minute = 0, second = s,
                  microsecond = us\<rparr>"

definition ex_attempt_A :: attempt where
  "ex_attempt_A = \<lparr>at_start = \<lparr>time = 0, utcnow = ex_utc 0 0\<rparr>, outcome = Response 200,
                   at_end = \<lparr>time = 2 / 25, utcnow = ex_utc 0 80000\<rparr>\<rparr>"

definition ex_attempt_B :: attempt where
  "ex_attempt_B = \<lparr>at_start = \<lparr>time = 0, utcnow = ex_utc 0 0\<rparr>, outcome = Response 500,
                   at_end = \<lparr>time = 1 / 20, utcnow = ex_utc 0 50000\<rparr>\<rparr>"

definition ex_attempt_C :: attempt where
  "ex_attempt_C = \<lparr>at_start = \<lparr>time = 0, utcnow = ex_utc 0 0\<rparr>,
                   outcome = Raised \<lparr>exc_class = AsyncioTimeoutError, exc_str = []\<rparr>,
                   at_end = \<lparr>time = 5, utcnow = ex_utc 5 0\<rparr>\<rparr>"

text \<open>A refused connection, and a failure outside the client's own exception classes.\<close>

definition ex_attempt_refused :: attempt where
  "ex_attempt_refused = \<lparr>at_start = \<lparr>time = 0, utcnow = ex_utc 0 0\<rparr>,
                         outcome = Raised \<lparr>exc_class = ClientError, exc_str = ''Connection failed''\<rparr>,
                         at_end = \<lparr>time = 1 / 100, utcnow = ex_utc 0 10000\<rparr>\<rparr>"

definition ex_attempt_unexpected :: attempt where
  "ex_attempt_unexpected = \<lparr>at_start = \<lparr>time = 0, utcnow = ex_utc 0 0\<rparr>,
                            outcome = Raised \<lparr>exc_class = OtherException, exc_str = ''boom''\<rparr>,
                            at_end = \<lparr>time = 1 / 100, utcnow = ex_utc 0 10000\<rparr>\<rparr>"

text \<open>
  A request that is cancelled while it is awaited: \<^verbatim>\<open>asyncio.CancelledError\<close>, which
  derives from \<^verbatim>\<open>BaseException\<close> and not from \<^verbatim>\<open>Exception\<close>, and whose text is empty.
\<close>

definition ex_cancelled :: py_exception where
  "ex_cancelled = \<lparr>exc_class = BaseExceptionOnly, exc_str = []\<rparr>"

definition ex_attempt_cancelled :: attempt where
  "ex_attempt_cancelled = \<lparr>at_start = \<lparr>time = 0, utcnow = ex_utc 0 0\<rparr>,
                           outcome = Raised ex_cancelled,
                           at_end = \<lparr>time = 1, utcnow = ex_utc 1 0\<rparr>\<rparr>"

definition ex_world :: "nat \<Rightarrow> attempt" where
  "ex_world i = (if i = 0 then ex_attempt_A else if i = 1 then ex_attempt_B else ex_attempt_C)"

definition ex_order :: "nat list" where
  "ex_order = [1, 0, 2]"

definition ex_result_A :: result_dict where
  "ex_result_A = \<lparr>service = ''A'', url = ''urlA'', timestamp = ''2026-01-20T10:00:00Z'',
                  status = ''up'', status_code = Some 200, response_time_ms = Some (Fround (Fmul (Fsub (Float (2 / 25)) (Float 0)) (Float 1000)) 2),
                  error = None\<rparr>"

definition ex_result_B :: result_dict where
  "ex_result_B = \<lparr>service = ''B'', url = ''urlB'', timestamp = ''2026-01-20T10:00:00Z'',
                  status = ''down'', status_code = Some 500, response_time_ms = Some (Fround (Fmul (Fsub (Float (1 / 20)) (Float 0)) (Float 1000)) 2),
                  error = None\<rparr>"

definition ex_result_C :: result_dict where
  "ex_result_C = \<lparr>service = ''C'', url = ''urlC'', timestamp = ''2026-01-20T10:00:00Z'',
                  status = ''down'', status_code = None, response_time_ms = Some (Fround (Fmul (Fsub (Float 5) (Float 0)) (Float 1000)) 2),
                  error = Some ''Request timeout''\<rparr>"

definition ex_after_run :: checker where
  "ex_after_run = snd (check_all_services ex_world ex_order ex_checker)"


section \<open>Auxiliary facts\<close>

subsection \<open>One probe\<close>

lemma check_service_returns:
  "raises_only_Exception a \<Longrightarrow> \<exists>r. check_service self a svc = Inr r"
  by (auto simp: check_service_def raises_only_Exception_def Let_def split: http_outcome.splits)

lemma check_service_copies:
  "check_service self a svc = Inr r \<Longrightarrow> service r = svc_name svc \<and> url r = svc_url svc"
  by (auto simp: check_service_def Let_def split: http_outcome.splits if_splits)

text \<open>
  An exception outside \<^verbatim>\<open>Exception\<close> matches none of the three handlers and leaves
  \<^verbatim>\<open>check_service\<close>.
\<close>

lemma check_service_passes_on:
  "outcome a = Raised e \<Longrightarrow> \<not> isinstance_Exception e \<Longrightarrow> check_service self a svc = Inl e"
  by (simp add: check_service_def Let_def isinstance_Exception_def isinstance_TimeoutError_def
      isinstance_ClientError_def)

subsection \<open>Gathering\<close>

lemma gather_run_length:
  "gather_run order tasks slots = Some (Inr rs) \<Longrightarrow> length rs = length slots"
proof (induction order arbitrary: slots)
  case Nil
  then show ?case by (auto split: if_splits)
next
  case (Cons i order)
  then show ?case by (auto split: if_splits sum.splits)
qed

lemma gather_length: "gather order tasks = Some (Inr rs) \<Longrightarrow> length rs = length tasks"
  using gather_run_length [of order tasks "replicate (length tasks) None" rs]
  by (simp add: gather_def)

lemma gather_run_no_tasks: "gather_run order [] [] = Some (Inr [])"
  by (induction order) simp_all

lemma gather_run_all_returned:
  assumes "length slots = length tasks"
    and "\<forall>j<length tasks. tasks ! j = Inr (f j)"
    and "\<forall>j<length tasks. slots ! j = None \<or> slots ! j = Some (f j)"
    and "\<forall>j<length tasks. slots ! j = None \<longrightarrow> j \<in> set order"
  shows "gather_run order tasks slots = Some (Inr (map f [0..<length tasks]))"
  using assms
proof (induction order arbitrary: slots)
  case Nil
  from Nil.prems(4) have "\<forall>j<length tasks. slots ! j \<noteq> None" by simp
  with Nil.prems(3) have filled: "\<forall>j<length tasks. slots ! j = Some (f j)" by blast
  with Nil.prems(1) have "list_all (\<lambda>v. v \<noteq> None) slots"
    by (simp add: list_all_length)
  moreover from filled Nil.prems(1) have "map the slots = map f [0..<length tasks]"
    by (intro nth_equalityI) simp_all
  ultimately show ?case by simp
next
  case (Cons i order)
  show ?case
  proof (cases "i < length tasks")
    case True
    with Cons.prems(2) have ti: "tasks ! i = Inr (f i)" by simp
    let ?slots = "slots[i := Some (f i)]"
    have "gather_run order tasks ?slots = Some (Inr (map f [0..<length tasks]))"
    proof (rule Cons.IH)
      show "length ?slots = length tasks" using Cons.prems(1) by simp
      show "\<forall>j<length tasks. tasks ! j = Inr (f j)" by (rule Cons.prems(2))
      show "\<forall>j<length tasks. ?slots ! j = None \<or> ?slots ! j = Some (f j)"
        using Cons.prems(1,3) True by (auto simp: nth_list_update)
      show "\<forall>j<length tasks. ?slots ! j = None \<longrightarrow> j \<in> set order"
        using Cons.prems(1,4) True by (auto simp: nth_list_update split: if_splits)
    qed
    with True ti show ?thesis by simp
  next
    case False
    have "gather_run order tasks slots = Some (Inr (map f [0..<length tasks]))"
    proof (rule Cons.IH)
      show "length slots = length tasks" by (rule Cons.prems(1))
      show "\<forall>j<length tasks. tasks ! j = Inr (f j)" by (rule Cons.prems(2))
      show "\<forall>j<length tasks. slots ! j = None \<or> slots ! j = Some (f j)" by (rule Cons.prems(3))
      show "\<forall>j<length tasks. slots ! j = None \<longrightarrow> j \<in> set order"
        using Cons.prems(4) False by auto
    qed
    with False show ?thesis by simp
  qed
qed

lemma gather_all_returned:
  assumes "\<forall>j<length tasks. tasks ! j = Inr (f j)" and "{..<length tasks} \<subseteq> set order"
  shows "gather order tasks = Some (Inr (map f [0..<length tasks]))"
  unfolding gather_def
  by (rule gather_run_all_returned) (use assms in auto)

subsection \<open>The state after each method\<close>

lemma get_last_results_state: "snd (get_last_results s) = s"
  by (simp add: get_last_results_def)

lemma get_summary_state: "snd (get_summary s) = s"
  by (simp add: get_summary_def Let_def)

lemma check_all_services_cases:
  "snd (check_all_services world order s) = s \<or>
   (\<exists>rs. snd (check_all_services world order s) = s\<lparr>last_check_results := rs\<rparr>
         \<and> length rs = length (services s))"
  by (auto simp: check_all_services_def Let_def split: option.splits sum.splits dest: gather_length)

lemma check_all_services_stored:
  "check_all_services world order s = (Some (Inr rs), s') \<Longrightarrow> s' = s\<lparr>last_check_results := rs\<rparr>"
  by (auto simp: check_all_services_def Let_def split: option.splits sum.splits)

lemma check_all_services_returned:
  assumes "\<forall>i<length (services s). raises_only_Exception (world i)"
    and "{..<length (services s)} \<subseteq> set order"
  shows "\<exists>rs. check_all_services world order s = (Some (Inr rs), s\<lparr>last_check_results := rs\<rparr>)
           \<and> length rs = length (services s)
           \<and> (\<forall>i<length (services s). check_service s (world i) (services s ! i) = Inr (rs ! i))"
proof -
  let ?n = "length (services s)"
  let ?tasks = "map (\<lambda>(i, service). check_service s (world i) service) (enumerate 0 (services s))"
  define f where "f i = projr (check_service s (world i) (services s ! i))" for i
  have nth: "?tasks ! i = Inr (f i)" if "i < ?n" for i
  proof -
    from that assms(1) have "raises_only_Exception (world i)" by simp
    then obtain r where "check_service s (world i) (services s ! i) = Inr r"
      using check_service_returns by blast
    with that show ?thesis by (simp add: f_def nth_enumerate_eq)
  qed
  have "gather order ?tasks = Some (Inr (map f [0..<length ?tasks]))"
    by (rule gather_all_returned) (use nth assms(2) in auto)
  then have g: "gather order ?tasks = Some (Inr (map f [0..<?n]))" by simp
  let ?rs = "map f [0..<?n]"
  have run: "check_all_services world order s = (Some (Inr ?rs), s\<lparr>last_check_results := ?rs\<rparr>)"
    using g by (simp add: check_all_services_def Let_def)
  have "check_service s (world i) (services s ! i) = Inr (?rs ! i)" if "i < ?n" for i
    using nth [OF that] that by (simp add: nth_enumerate_eq)
  with run show ?thesis by (intro exI [of _ ?rs]) simp
qed

lemma reachable_lengths:
  "reachable s \<Longrightarrow>
     last_check_results s = [] \<or> length (last_check_results s) = length (services s)"
proof (induction rule: reachable.induct)
  case (reachable_init svcs t)
  then show ?case by (simp add: init_def)
next
  case (reachable_check_all s world order)
  from check_all_services_cases [of world order s] reachable_check_all.IH
  show ?case by auto
next
  case (reachable_get_last_results s)
  then show ?case by (simp add: get_last_results_state)
next
  case (reachable_get_summary s)
  then show ?case by (simp add: get_summary_state)
qed

lemma read_state: "snd (read c s) = s"
  by (cases c) (simp_all add: get_last_results_state get_summary_state)

lemma run_reads_state: "run_reads cs s = s"
  by (induction cs arbitrary: s) (simp_all add: read_state)

subsection \<open>Evaluating the concrete run\<close>

lemma zero_padded_2: "zero_padded 2 n = [digit_char (n div 10), digit_char n]"
proof -
  have "zero_padded (Suc (Suc 0)) n = [digit_char (n div 10), digit_char n]" by simp
  then show ?thesis by (simp only: numeral_2_eq_2)
qed

lemma zero_padded_4:
  "zero_padded 4 n = [digit_char (n div 10 div 10 div 10), digit_char (n div 10 div 10),
                      digit_char (n div 10), digit_char n]"
proof -
  have "(4::nat) = Suc (Suc (Suc (Suc 0)))" by simp
  then show ?thesis by (simp only: zero_padded.simps append.simps)
qed

lemma ex_utc_isoformat:
  "isoformat (ex_utc 0 0) = ''2026-01-20T10:00:00''"
  "isoformat (ex_utc 5 0) = ''2026-01-20T10:00:05''"
  by (simp_all add: isoformat_def ex_utc_def zero_padded_2 zero_padded_4 digit_char_def)

lemma ex_check_A: "check_service self ex_attempt_A ex_A = Inr ex_result_A"
  by (simp add: check_service_def ex_attempt_A_def ex_A_def ex_result_A_def ex_utc_isoformat
      Let_def)

lemma ex_check_B: "check_service self ex_attempt_B ex_B = Inr ex_result_B"
  by (simp add: check_service_def ex_attempt_B_def ex_B_def ex_result_B_def ex_utc_isoformat
      Let_def)

lemma ex_check_C: "check_service self ex_attempt_C ex_C = Inr ex_result_C"
  by (simp add: check_service_def ex_attempt_C_def ex_C_def ex_result_C_def ex_utc_isoformat
      Let_def isinstance_TimeoutError_def)

lemma ex_run:
  "check_all_services ex_world ex_order ex_checker =
     (Some (Inr [ex_result_A, ex_result_B, ex_result_C]),
      ex_checker\<lparr>last_check_results := [ex_result_A, ex_result_B, ex_result_C]\<rparr>)"
  by (simp add: check_all_services_def ex_checker_def init_def gather_def ex_order_def ex_world_def
      ex_check_A ex_check_B ex_check_C numeral_2_eq_2 numeral_3_eq_3 Let_def)

lemma ex_after_run_eq:
  "ex_after_run = ex_checker\<lparr>last_check_results := [ex_result_A, ex_result_B, ex_result_C]\<rparr>"
  by (simp add: ex_after_run_def ex_run)

lemma ex_summary:
  "fst (get_summary ex_after_run)
     = \<lparr>total_services = 3, up = 1, down = 2, last_check = Some ''2026-01-20T10:00:00Z''\<rparr>"
  by (simp add: ex_after_run_eq get_summary_def Let_def ex_checker_def init_def ex_result_A_def
      ex_result_B_def ex_result_C_def)

lemma ex_last_results:
  "fst (get_last_results ex_after_run) = [ex_result_A, ex_result_B, ex_result_C]"
  by (simp add: get_last_results_def ex_after_run_eq)

lemma ex_completion_isoformat:
  "isoformat (utcnow (at_end ex_attempt_C)) @ ''Z'' = ''2026-01-20T10:00:05Z''"
  by (simp add: ex_attempt_C_def ex_utc_isoformat)

section \<open>The claims\<close>

text \<open>
  C1. Whatever the outcome of the probe, the result that \<^verbatim>\<open>check_service\<close> returns has
  status \<^verbatim>\<open>'up'\<close> if and only if a response with status code exactly 200 was
  received; every other outcome (another status code, a timeout, a transport failure, an
  unexpected exception) gives a result with status \<^verbatim>\<open>'down'\<close>.
\<close>

theorem check_service_up_iff_200:
  "(\<forall>r. check_service self a svc = Inr r \<longrightarrow>
        (status r = ''up'' \<longleftrightarrow> outcome a = Response 200)
        \<and> (status r \<noteq> ''up'' \<longrightarrow> status r = ''down''))
   \<and> (outcome a = Response 200 \<longrightarrow>
        (\<exists>r. check_service self a svc = Inr r \<and> status r = ''up''))
   \<and> (outcome a \<noteq> Response 200 \<and> raises_only_Exception a \<longrightarrow>
        (\<exists>r. check_service self a svc = Inr r \<and> status r = ''down''))"
  by (auto simp: check_service_def raises_only_Exception_def Let_def
      split: http_outcome.splits if_splits)

theorem check_service_up_iff_200_witness:
  "outcome ex_attempt_A = Response 200
   \<and> (\<exists>r. check_service ex_checker ex_attempt_A ex_A = Inr r \<and> status r = ''up'')
   \<and> outcome ex_attempt_B \<noteq> Response 200 \<and> raises_only_Exception ex_attempt_B
   \<and> (\<exists>r. check_service ex_checker ex_attempt_B ex_B = Inr r \<and> status r = ''down'')"
  using check_service_up_iff_200 [where self = ex_checker and a = ex_attempt_A and svc = ex_A]
    check_service_up_iff_200 [where self = ex_checker and a = ex_attempt_B and svc = ex_B]
  by (simp add: ex_attempt_A_def ex_attempt_B_def raises_only_Exception_def)

text \<open>
  C2. For a roster of N entries, \<^verbatim>\<open>check_all_services\<close> returns exactly N results, and
  the result at index i is the one of the probe of roster entry i (it carries that
  entry's name and URL), whichever probes succeed, fail or time out and in whatever order
  they finish.
\<close>

theorem check_all_services_complete_aligned:
  assumes "\<forall>i<length (services s). raises_only_Exception (world i)"
    and "{..<length (services s)} \<subseteq> set order"
  shows "\<exists>rs. check_all_services world order s = (Some (Inr rs), s\<lparr>last_check_results := rs\<rparr>)
           \<and> length rs = length (services s)
           \<and> (\<forall>i<length (services s).
                 check_service s (world i) (services s ! i) = Inr (rs ! i)
                 \<and> service (rs ! i) = svc_name (services s ! i)
                 \<and> url (rs ! i) = svc_url (services s ! i))"
proof -
  from check_all_services_returned [OF assms]
  obtain rs where run: "check_all_services world order s = (Some (Inr rs), s\<lparr>last_check_results := rs\<rparr>)"
    and len: "length rs = length (services s)"
    and each: "\<forall>i<length (services s). check_service s (world i) (services s ! i) = Inr (rs ! i)"
    by blast
  from each have "\<forall>i<length (services s).
      service (rs ! i) = svc_name (services s ! i) \<and> url (rs ! i) = svc_url (services s ! i)"
    using check_service_copies by blast
  with run len each show ?thesis by blast
qed

theorem check_all_services_complete_aligned_witness:
  "raises_only_Exception (ex_world 0) \<and> raises_only_Exception (ex_world 1)
   \<and> raises_only_Exception (ex_world 2) \<and> set ex_order = {0, 1, 2}
   \<and> (\<exists>rs. check_all_services ex_world ex_order ex_checker
               = (Some (Inr rs), ex_checker\<lparr>last_check_results := rs\<rparr>)
         \<and> length rs = 3
         \<and> service (rs ! 0) = ''A'' \<and> service (rs ! 1) = ''B'' \<and> service (rs ! 2) = ''C'')"
proof -
  have probes: "\<forall>i<length (services ex_checker). raises_only_Exception (ex_world i)"
    by (simp add: ex_world_def raises_only_Exception_def ex_attempt_A_def ex_attempt_B_def
        ex_attempt_C_def isinstance_Exception_def)
  have finished: "{..<length (services ex_checker)} \<subseteq> set ex_order"
    by (auto simp: ex_checker_def init_def ex_order_def)
  from check_all_services_complete_aligned [OF probes finished]
  obtain rs where "check_all_services ex_world ex_order ex_checker
        = (Some (Inr rs), ex_checker\<lparr>last_check_results := rs\<rparr>)"
    and "length rs = length (services ex_checker)"
    and "\<forall>i<length (services ex_checker).
           service (rs ! i) = svc_name (services ex_checker ! i)"
    by blast
  then have "check_all_services ex_world ex_order ex_checker
        = (Some (Inr rs), ex_checker\<lparr>last_check_results := rs\<rparr>)
      \<and> length rs = 3
      \<and> service (rs ! 0) = ''A'' \<and> service (rs ! 1) = ''B'' \<and> service (rs ! 2) = ''C''"
    by (simp add: ex_checker_def init_def ex_A_def ex_B_def ex_C_def)
  then have "\<exists>rs. check_all_services ex_world ex_order ex_checker
               = (Some (Inr rs), ex_checker\<lparr>last_check_results := rs\<rparr>)
         \<and> length rs = 3
         \<and> service (rs ! 0) = ''A'' \<and> service (rs ! 1) = ''B'' \<and> service (rs ! 2) = ''C''"
    by blast
  moreover have "raises_only_Exception (ex_world 0) \<and> raises_only_Exception (ex_world 1)
      \<and> raises_only_Exception (ex_world 2) \<and> set ex_order = {0, 1, 2}"
    by (auto simp: ex_world_def raises_only_Exception_def ex_attempt_A_def ex_attempt_B_def
        ex_attempt_C_def isinstance_Exception_def ex_order_def)
  ultimately show ?thesis by blast
qed

text \<open>
  C3. In every state that a checker can reach, the counts of \<^verbatim>\<open>get_summary\<close> satisfy
  up + down = total_services = length of the roster. While no results are stored (in
  particular before the first run) up is 0 and down is the length of the roster.
\<close>

theorem get_summary_counts_consistent:
  "reachable s \<Longrightarrow>
     up (fst (get_summary s)) + down (fst (get_summary s)) = total_services (fst (get_summary s))
     \<and> total_services (fst (get_summary s)) = int (length (services s))
     \<and> (last_check_results s = [] \<longrightarrow>
          up (fst (get_summary s)) = 0
          \<and> down (fst (get_summary s)) = int (length (services s)))"
proof -
  assume "reachable s"
  then have "last_check_results s = [] \<or> length (last_check_results s) = length (services s)"
    by (rule reachable_lengths)
  then show ?thesis
    by (auto simp: get_summary_def Let_def)
qed

theorem get_summary_counts_consistent_witness:
  "fst (get_summary (init [ex_A, ex_B, ex_C] 5))
     = \<lparr>total_services = 3, up = 0, down = 3, last_check = None\<rparr>
   \<and> up (fst (get_summary ex_after_run)) = 1 \<and> down (fst (get_summary ex_after_run)) = 2
   \<and> up (fst (get_summary ex_after_run)) + down (fst (get_summary ex_after_run))
       = total_services (fst (get_summary ex_after_run))
   \<and> total_services (fst (get_summary ex_after_run)) = 3"
proof -
  have "reachable ex_after_run"
    unfolding ex_after_run_def ex_checker_def
    by (intro reachable_check_all reachable_init)
  from get_summary_counts_consistent [OF this]
  have after: "up (fst (get_summary ex_after_run)) + down (fst (get_summary ex_after_run))
          = total_services (fst (get_summary ex_after_run))
      \<and> total_services (fst (get_summary ex_after_run)) = int (length (services ex_after_run))"
    by blast
  have before: "fst (get_summary (init [ex_A, ex_B, ex_C] 5))
     = \<lparr>total_services = 3, up = 0, down = 3, last_check = None\<rparr>"
    using get_summary_counts_consistent [OF reachable_init, of "[ex_A, ex_B, ex_C]" 5]
    by (simp add: get_summary_def init_def)
  from after before show ?thesis
    by (simp add: ex_summary)
qed

text \<open>
  C4. The error field follows the class of the failure. A response with a status code
  other than 200 gives that code and no error. A timeout gives no status code and the
  error \<^verbatim>\<open>"Request timeout"\<close>. A transport failure of the client that is not a timeout
  gives no status code and the text of the exception as the error.
\<close>

theorem check_service_error_by_failure_class:
  "(outcome a = Response c \<and> c \<noteq> 200 \<longrightarrow>
      (\<exists>r. check_service self a svc = Inr r \<and> status r = ''down''
           \<and> status_code r = Some c \<and> error r = None))
   \<and> (outcome a = Raised e \<and> isinstance_TimeoutError e \<longrightarrow>
      (\<exists>r. check_service self a svc = Inr r \<and> status r = ''down''
           \<and> status_code r = None \<and> error r = Some ''Request timeout''))
   \<and> (outcome a = Raised e \<and> \<not> isinstance_TimeoutError e \<and> isinstance_ClientError e \<longrightarrow>
      (\<exists>r. check_service self a svc = Inr r \<and> status r = ''down''
           \<and> status_code r = None \<and> error r = Some (exc_str e)))"
  by (simp add: check_service_def Let_def)

theorem check_service_error_by_failure_class_witness:
  "(\<exists>r. check_service ex_checker ex_attempt_B ex_B = Inr r \<and> status r = ''down''
        \<and> status_code r = Some 500 \<and> error r = None)
   \<and> (\<exists>r. check_service ex_checker ex_attempt_C ex_C = Inr r \<and> status r = ''down''
        \<and> status_code r = None \<and> error r = Some ''Request timeout'')
   \<and> (\<exists>r. check_service ex_checker ex_attempt_refused ex_A = Inr r \<and> status r = ''down''
        \<and> status_code r = None \<and> error r = Some ''Connection failed'')"
  using check_service_error_by_failure_class
      [where a = ex_attempt_B and c = 500 and self = ex_checker and svc = ex_B]
    check_service_error_by_failure_class
      [where a = ex_attempt_C and e = "\<lparr>exc_class = AsyncioTimeoutError, exc_str = []\<rparr>"
         and self = ex_checker and svc = ex_C]
    check_service_error_by_failure_class
      [where a = ex_attempt_refused
         and e = "\<lparr>exc_class = ClientError, exc_str = ''Connection failed''\<rparr>"
         and self = ex_checker and svc = ex_A]
  by (simp add: ex_attempt_B_def ex_attempt_C_def ex_attempt_refused_def
      isinstance_TimeoutError_def isinstance_ClientError_def)

text \<open>
  C5, as the specification states it: for every possible outcome of the HTTP attempt,
  any unexpected exception included, \<^verbatim>\<open>check_service\<close> returns a result and raises
  nothing. The attempt below refutes it: the request is cancelled, the exception matches
  none of the three handlers, and it leaves \<^verbatim>\<open>check_service\<close>.
\<close>

theorem check_service_propagates_cancellation:
  "check_service ex_checker ex_attempt_cancelled ex_A = Inl ex_cancelled"
  by (simp add: check_service_def ex_attempt_cancelled_def ex_cancelled_def Let_def
      isinstance_TimeoutError_def isinstance_ClientError_def isinstance_Exception_def)

text \<open>
  C5, amended. \<^verbatim>\<open>check_service\<close> passes no failure that is an instance of \<^verbatim>\<open>Exception\<close>
  on to its caller. When the attempt delivers a response or raises an instance of
  \<^verbatim>\<open>Exception\<close>, of whatever class, the method returns a result, and when an exception
  was raised that result has status \<^verbatim>\<open>'down'\<close> and its error field is set: to
  \<^verbatim>\<open>"Request timeout"\<close> for a timeout and to the text of the exception otherwise. An
  exception that is not an instance of \<^verbatim>\<open>Exception\<close> is not caught: the method raises
  it.
\<close>

theorem check_service_catches_every_Exception:
  "(raises_only_Exception a \<longrightarrow>
      (\<exists>r. check_service self a svc = Inr r
         \<and> (\<forall>e. outcome a = Raised e \<longrightarrow>
               status r = ''down''
               \<and> error r = Some (if isinstance_TimeoutError e then ''Request timeout''
                                 else exc_str e))))
   \<and> (\<not> raises_only_Exception a \<longrightarrow>
      (\<exists>e. outcome a = Raised e \<and> check_service self a svc = Inl e))"
proof (cases "outcome a")
  case (Response c)
  then show ?thesis
    by (simp add: check_service_def raises_only_Exception_def Let_def)
next
  case (Raised e)
  show ?thesis
  proof (cases "isinstance_Exception e")
    case True
    with Raised show ?thesis
      by (simp add: check_service_def raises_only_Exception_def Let_def)
  next
    case False
    with Raised have "check_service self a svc = Inl e"
      by (rule check_service_passes_on)
    with Raised False show ?thesis
      by (simp add: raises_only_Exception_def)
  qed
qed

theorem check_service_catches_every_Exception_witness:
  "raises_only_Exception ex_attempt_unexpected
   \<and> (\<exists>r. check_service ex_checker ex_attempt_unexpected ex_A = Inr r
         \<and> status r = ''down'' \<and> error r = Some ''boom'')
   \<and> \<not> raises_only_Exception ex_attempt_cancelled
   \<and> (\<exists>e. check_service ex_checker ex_attempt_cancelled ex_A = Inl e)"
  using check_service_catches_every_Exception
      [where a = ex_attempt_unexpected and self = ex_checker and svc = ex_A]
    check_service_catches_every_Exception
      [where a = ex_attempt_cancelled and self = ex_checker and svc = ex_A]
  by (simp add: ex_attempt_unexpected_def ex_attempt_cancelled_def ex_cancelled_def
      raises_only_Exception_def isinstance_Exception_def isinstance_TimeoutError_def)

text \<open>
  C6. The \<^verbatim>\<open>last_check\<close> field of the summary is the timestamp of the first result
  (index 0) of the stored results when there are stored results, and \<^verbatim>\<open>None\<close> when no
  run has taken place.
\<close>

theorem get_summary_last_check:
  "(check_all_services world order s = (Some (Inr rs), s') \<and> rs \<noteq> [] \<longrightarrow>
      last_check (fst (get_summary s')) = Some (timestamp (rs ! 0)))
   \<and> (last_check_results s \<noteq> [] \<longrightarrow>
      last_check (fst (get_summary s)) = Some (timestamp (last_check_results s ! 0)))
   \<and> (last_check_results s = [] \<longrightarrow> last_check (fst (get_summary s)) = None)
   \<and> last_check (fst (get_summary (run_reads cs (init svcs t)))) = None"
proof -
  have "last_check (fst (get_summary s')) = Some (timestamp (rs ! 0))"
    if "check_all_services world order s = (Some (Inr rs), s')" and "rs \<noteq> []"
  proof -
    from that(1) have "s' = s\<lparr>last_check_results := rs\<rparr>"
      by (rule check_all_services_stored)
    with that(2) show ?thesis by (simp add: get_summary_def Let_def)
  qed
  moreover have "last_check (fst (get_summary (run_reads cs (init svcs t)))) = None"
    by (simp add: run_reads_state get_summary_def init_def)
  ultimately show ?thesis
    by (simp add: get_summary_def Let_def)
qed

theorem get_summary_last_check_witness:
  "check_all_services ex_world ex_order ex_checker
     = (Some (Inr [ex_result_A, ex_result_B, ex_result_C]), ex_after_run)
   \<and> last_check (fst (get_summary ex_after_run)) = Some ''2026-01-20T10:00:00Z''
   \<and> last_check (fst (get_summary ex_checker)) = None"
proof -
  have run: "check_all_services ex_world ex_order ex_checker
     = (Some (Inr [ex_result_A, ex_result_B, ex_result_C]), ex_after_run)"
    by (simp add: ex_run ex_after_run_eq)
  have none: "last_check_results ex_checker = []"
    by (simp add: ex_checker_def init_def)
  from run none
    get_summary_last_check [where world = ex_world and order = ex_order and s = ex_checker
      and rs = "[ex_result_A, ex_result_B, ex_result_C]" and s' = ex_after_run]
  show ?thesis by (simp add: ex_result_A_def)
qed

text \<open>
  C7, as the specification states it: the timestamp of a result is the instant at which
  the probe completed. The run below refutes it: the probe of service C starts at
  10:00:00 and its timeout is known at 10:00:05, and the result carries 10:00:00.
\<close>

theorem check_service_timestamp_not_completion:
  "check_service ex_checker ex_attempt_C ex_C = Inr ex_result_C
   \<and> timestamp ex_result_C \<noteq> isoformat (utcnow (at_end ex_attempt_C)) @ ''Z''"
  by (simp add: ex_check_C ex_completion_isoformat ex_result_C_def)

text \<open>
  C7, amended. The timestamp of a result is the UTC time read when \<^verbatim>\<open>check_service\<close>
  builds the result dictionary, before the request is issued: the ISO 8601 text of that
  reading followed by \<^verbatim>\<open>Z\<close>. It depends neither on the outcome of the request nor on
  the time at which the outcome is known.
\<close>

theorem check_service_timestamp_at_start:
  "check_service self a svc = Inr r \<Longrightarrow> timestamp r = isoformat (utcnow (at_start a)) @ ''Z''"
  by (auto simp: check_service_def Let_def split: http_outcome.splits if_splits)

theorem check_service_timestamp_at_start_witness:
  "check_service ex_checker ex_attempt_C ex_C = Inr ex_result_C
   \<and> timestamp ex_result_C = isoformat (utcnow (at_start ex_attempt_C)) @ ''Z''
   \<and> timestamp ex_result_C = ''2026-01-20T10:00:00Z''"
  using check_service_timestamp_at_start
      [where self = ex_checker and a = ex_attempt_C and svc = ex_C and r = ex_result_C]
  by (simp add: ex_check_C ex_result_C_def)

text \<open>
  C8. A checker with an empty roster: \<^verbatim>\<open>check_all_services\<close> returns the empty list and
  raises nothing, and \<^verbatim>\<open>get_summary\<close> returns total_services = 0, up = 0, down = 0 and
  last_check = None, before and after the run.
\<close>

theorem empty_roster_run_and_summary:
  "check_all_services world order (init [] t) = (Some (Inr []), init [] t)
   \<and> fst (get_summary (init [] t))
       = \<lparr>total_services = 0, up = 0, down = 0, last_check = None\<rparr>
   \<and> fst (get_summary (snd (check_all_services world order (init [] t))))
       = \<lparr>total_services = 0, up = 0, down = 0, last_check = None\<rparr>"
proof -
  have run: "check_all_services world order (init [] t) = (Some (Inr []), init [] t)"
    by (simp add: check_all_services_def init_def gather_def gather_run_no_tasks)
  have "fst (get_summary (init [] t)) = \<lparr>total_services = 0, up = 0, down = 0, last_check = None\<rparr>"
    by (simp add: get_summary_def init_def)
  with run show ?thesis by simp
qed

theorem empty_roster_run_and_summary_witness:
  "check_all_services ex_world [] (init [] 10) = (Some (Inr []), init [] 10)
   \<and> fst (get_summary (init [] 10))
       = \<lparr>total_services = 0, up = 0, down = 0, last_check = None\<rparr>"
  using empty_roster_run_and_summary [of ex_world "[]" 10]
  by simp

text \<open>
  C9. \<^verbatim>\<open>get_last_results\<close> and \<^verbatim>\<open>get_summary\<close> are pure reads: after any sequence of
  calls of the two, with no \<^verbatim>\<open>check_all_services\<close> in between, each returns what it
  returned before. As long as no run has taken place, \<^verbatim>\<open>get_last_results\<close> returns the
  empty list.
\<close>

theorem reads_return_identical_values:
  "fst (get_last_results (run_reads cs s)) = fst (get_last_results s)
   \<and> fst (get_summary (run_reads cs s)) = fst (get_summary s)
   \<and> fst (get_last_results (run_reads cs (init svcs t))) = []"
  by (simp add: run_reads_state get_last_results_def init_def)

theorem reads_return_identical_values_witness:
  "fst (get_summary (run_reads [GetSummary, GetLastResults, GetSummary] ex_after_run))
     = \<lparr>total_services = 3, up = 1, down = 2, last_check = Some ''2026-01-20T10:00:00Z''\<rparr>
   \<and> fst (get_last_results (run_reads [GetLastResults, GetSummary] ex_after_run))
     = [ex_result_A, ex_result_B, ex_result_C]
   \<and> fst (get_last_results (run_reads [GetSummary] ex_checker)) = []"
  using reads_return_identical_values [of "[GetSummary, GetLastResults, GetSummary]" ex_after_run]
    reads_return_identical_values [of "[GetLastResults, GetSummary]" ex_after_run]
    reads_return_identical_values [of "[GetSummary]" ex_checker "[ex_A, ex_B, ex_C]" 5]
  by (simp add: ex_summary ex_last_results ex_checker_def get_summary_state
      get_last_results_state)

text \<open>
  C10. No method changes the roster or the timeout. \<^verbatim>\<open>check_all_services\<close> changes at
  most the field \<open>last_check_results\<close>; \<^verbatim>\<open>get_last_results\<close> and \<^verbatim>\<open>get_summary\<close>
  change nothing. The constructor stores the roster and the timeout that it is given.
\<close>

theorem methods_frame:
  "services (snd (check_all_services world order s)) = services s
   \<and> timeout (snd (check_all_services world order s)) = timeout s
   \<and> (\<exists>rs. snd (check_all_services world order s) = s\<lparr>last_check_results := rs\<rparr>)
   \<and> snd (get_last_results s) = s
   \<and> snd (get_summary s) = s
   \<and> services (init svcs t) = svcs \<and> timeout (init svcs t) = t"
proof -
  have "\<exists>rs. snd (check_all_services world order s) = s\<lparr>last_check_results := rs\<rparr>"
  proof -
    from check_all_services_cases [of world order s]
    consider "snd (check_all_services world order s) = s"
      | rs where "snd (check_all_services world order s) = s\<lparr>last_check_results := rs\<rparr>"
      by blast
    then show ?thesis
    proof cases
      case 1
      then have "snd (check_all_services world order s) = s\<lparr>last_check_results := last_check_results s\<rparr>"
        by simp
      then show ?thesis by blast
    next
      case 2
      then show ?thesis by blast
    qed
  qed
  moreover from this have "services (snd (check_all_services world order s)) = services s
      \<and> timeout (snd (check_all_services world order s)) = timeout s"
    by auto
  ultimately show ?thesis
    by (simp add: get_last_results_state get_summary_state init_def)
qed

theorem methods_frame_witness:
  "services ex_after_run = [ex_A, ex_B, ex_C] \<and> timeout ex_after_run = 5
   \<and> snd (get_summary ex_after_run) = ex_after_run
   \<and> snd (get_last_results ex_after_run) = ex_after_run"
  using methods_frame [of ex_world ex_order ex_checker "[ex_A, ex_B, ex_C]" 5]
    methods_frame [of ex_world ex_order ex_after_run]
  by (simp add: ex_after_run_def ex_checker_def init_def)

end
